theory Spec2Isabelle
  imports Complex_Main
begin

section \<open>Numbers\<close>

text \<open>
  The scorers compute on JavaScript numbers. The specification's data model takes every
  field to be a real number, and so does this development: a number is a \<^typ>\<open>real\<close>,
  arithmetic is exact, and the values NaN and Infinity are outside the model.
  \<^verbatim>\<open>Math.floor\<close> is \<^const>\<open>floor\<close>, whose result is an integer.

  The expression \<^verbatim>\<open>x || 1\<close> yields \<^verbatim>\<open>1\<close> when \<^verbatim>\<open>x\<close> is falsy and
  \<^verbatim>\<open>x\<close> otherwise; the only falsy real number is zero.
\<close>

definition orElse :: "real \<Rightarrow> real \<Rightarrow> real" where
  "orElse x d = (if x = 0 then d else x)"


section \<open>Variant A: the weighted multi-factor scorer\<close>

text \<open>The constant \<^verbatim>\<open>WORST_CASE_VACANCY_RATE = 0.20\<close>.\<close>

definition WORST_CASE_VACANCY_RATE :: real where
  "WORST_CASE_VACANCY_RATE = 0.20"

record FinancialInput =
  annualIncome :: real
  annualRepayment :: real
  totalDebt :: real
  annualRentIncome :: real
  expenseRate :: real
  vacancyRate :: real
  interestRate :: real
  simulatedInterestRate :: real
  otherDebtRatio :: real

text \<open>
  The three risk levels are the one-character strings of the source for low, medium and
  high. The detail texts are fixed sentences, some of them templates over numbers; each
  is a constructor that carries the numbers the template prints.
\<close>

datatype riskLevel = Low | Medium | High

datatype riskDetail =
    DetailExcellent
  | DetailRoomForImprovement
  | DetailMajorConcern

datatype simulatedRiskDetail =
    SimStaysLow
  | SimRisesToMedium real real
  | SimBelowOne real

datatype vacancyRiskDetail =
    VacStable real real
  | VacRisesToMedium real real
  | VacBelowOne real

record RiskScore =
  finalScore :: int
  riskLevel :: riskLevel
  riskDetail :: riskDetail
  creditScore :: int
  propertyScore :: int
  interestRiskScore :: int
  currentDcsr :: real
  simulatedDcsr :: real
  simulatedRiskLevel :: riskLevel
  simulatedRiskDetail :: simulatedRiskDetail
  simulatedRepayment :: real
  worstCaseVacancyDcsr :: real
  vacancyRiskLevel :: riskLevel
  vacancyRiskDetail :: vacancyRiskDetail
  worstCaseVacancyRate :: real

text \<open>
  \<^verbatim>\<open>estimateIncreasedRepayment\<close>: the rate difference times the total debt, scaled by
  the constant 0.7.
\<close>

definition estimateIncreasedRepayment :: "real \<Rightarrow> real \<Rightarrow> real \<Rightarrow> real" where
  "estimateIncreasedRepayment totalDebt' currentRate newRate =
     totalDebt' * (newRate - currentRate) * 0.7"

text \<open>
  The local constants of \<^verbatim>\<open>calculateRiskScore\<close> that are not part of its result:
  the two debt-to-income ratios and the net operating income.
\<close>

definition debtToIncomeRatio :: "FinancialInput \<Rightarrow> real" where
  "debtToIncomeRatio input = annualRepayment input / orElse (annualIncome input) 1"

definition totalDebtToIncomeRatio :: "FinancialInput \<Rightarrow> real" where
  "totalDebtToIncomeRatio input = totalDebt input / orElse (annualIncome input) 1"

definition noi :: "FinancialInput \<Rightarrow> real" where
  "noi input = annualRentIncome input * (1 - vacancyRate input) * (1 - expenseRate input)"

text \<open>
  \<^verbatim>\<open>calculateRiskScore\<close>. Each \<^verbatim>\<open>if (c) x -= k\<close> of the source is one
  rebinding of the variable, in the source's order.
\<close>

definition calculateRiskScore :: "FinancialInput \<Rightarrow> RiskScore" where
  "calculateRiskScore input =
    (let
       cs = (30::int);
       cs = (if debtToIncomeRatio input > 0.3 then cs - 5 else cs);
       cs = (if totalDebtToIncomeRatio input > 5 then cs - 10 else cs);
       cs = (if otherDebtRatio input > 0.2 then cs - 5 else cs);
       cs = (if cs < 0 then 0 else cs);

       dcsr = noi input / orElse (annualRepayment input) 1;
       ps = (40::int);
       ps = (if dcsr < 1.2 then ps - 10 else ps);
       ps = (if dcsr < 1.0 then ps - 15 else ps);
       ps = (if expenseRate input > 0.4 then ps - 5 else ps);
       ps = (if vacancyRate input > 0.15 then ps - 5 else ps);
       ps = (if ps < 0 then 0 else ps);

       irs = (30::int);
       irs = (if interestRate input > 0.04 then irs - 10 else irs);
       irs = (if interestRate input > 0.05 then irs - 10 else irs);
       irs = (if totalDebtToIncomeRatio input > 8 then irs - 5 else irs);
       irs = (if irs < 0 then 0 else irs);

       increasedRepayment =
         estimateIncreasedRepayment (totalDebt input) (interestRate input)
           (simulatedInterestRate input);
       simRepayment = annualRepayment input + increasedRepayment;
       simDcsr = noi input / orElse simRepayment 1;
       sim = (Low, SimStaysLow);
       sim = (if simDcsr < 1.2
              then (Medium, SimRisesToMedium (simulatedInterestRate input * 100) simDcsr)
              else sim);
       sim = (if simDcsr < 1.0
              then (High, SimBelowOne (simulatedInterestRate input * 100))
              else sim);

       worstCaseVacancyNoi =
         annualRentIncome input * (1 - WORST_CASE_VACANCY_RATE) * (1 - expenseRate input);
       vacDcsr = worstCaseVacancyNoi / orElse (annualRepayment input) 1;
       vac = (Low, VacStable (WORST_CASE_VACANCY_RATE * 100) vacDcsr);
       vac = (if vacDcsr < 1.2
              then (Medium, VacRisesToMedium (WORST_CASE_VACANCY_RATE * 100) vacDcsr)
              else vac);
       vac = (if vacDcsr < 1.0
              then (High, VacBelowOne (WORST_CASE_VACANCY_RATE * 100))
              else vac);

       fs = cs + ps + irs;
       lvl = (Low, DetailExcellent);
       lvl = (if fs < 80 then (Medium, DetailRoomForImprovement) else lvl);
       lvl = (if fs < 50 then (High, DetailMajorConcern) else lvl)
     in
       \<lparr> finalScore = fs,
         riskLevel = fst lvl,
         riskDetail = snd lvl,
         creditScore = cs,
         propertyScore = ps,
         interestRiskScore = irs,
         currentDcsr = dcsr,
         simulatedDcsr = simDcsr,
         simulatedRiskLevel = fst sim,
         simulatedRiskDetail = snd sim,
         simulatedRepayment = simRepayment,
         worstCaseVacancyDcsr = vacDcsr,
         vacancyRiskLevel = fst vac,
         vacancyRiskDetail = snd vac,
         worstCaseVacancyRate = WORST_CASE_VACANCY_RATE \<rparr>)"

text \<open>The default form values \<^verbatim>\<open>initialInput\<close> of Variant A.\<close>

definition initialInput :: FinancialInput where
  "initialInput =
     \<lparr> annualIncome = 5000000,
       annualRepayment = 1000000,
       totalDebt = 30000000,
       annualRentIncome = 2000000,
       expenseRate = 0.3,
       vacancyRate = 0.1,
       interestRate = 0.03,
       simulatedInterestRate = 0.04,
       otherDebtRatio = 0.1 \<rparr>"


section \<open>Variant B: the DSR/DCR scorer\<close>

record formData =
  annualIncomeDebtor :: real
  annualRepayment :: real
  loanAmount :: real
  annualRentalIncomeGross :: real
  annualExpensesRatio :: real
  vacancyRateAssumption :: real
  currentAnnualInterestRate :: real
  otherDebtsRatio :: real

text \<open>
  The level strings of \<^verbatim>\<open>calculateRealEstateRisk\<close>, in the order of the source: the
  fatal message for a zero income, then "very high", "high", "medium" and "comparatively
  low" risk. \<open>NoComment\<close> and \<open>NoDetail\<close> are the empty strings of the fatal result;
  \<open>DcrComment\<close> carries the ratio that the comment template prints.
\<close>

datatype level =
    FatalZeroIncome
  | VeryHighRisk
  | HighRisk
  | MediumRisk
  | RelativelyLowRisk

datatype dcrComment = NoComment | DcrComment real

datatype dcrDetail =
    NoDetail
  | DetailCannotCover
  | DetailTight
  | DetailMargin

text \<open>
  The result object. The fatal result has no \<^verbatim>\<open>annualNetIncome\<close> property, which is
  \<open>None\<close> here.
\<close>

record riskResult =
  score :: int
  level :: level
  dcrComment :: dcrComment
  dcrDetail :: dcrDetail
  dcrValue :: real
  annualNetIncome :: "real option"

text \<open>
  The local constant \<^verbatim>\<open>annualRepayment\<close> of the scorer: the override when one is
  passed (\<open>Some\<close>), the field of the data otherwise (\<open>None\<close> is \<^verbatim>\<open>undefined\<close>).
\<close>

definition repaymentUsed :: "formData \<Rightarrow> real option \<Rightarrow> real" where
  "repaymentUsed data repaymentOverride =
     (case repaymentOverride of Some r \<Rightarrow> r | None \<Rightarrow> annualRepayment data)"

text \<open>The ratio \<^verbatim>\<open>dsr\<close> on the branch where the income is not zero.\<close>

definition dsr :: "formData \<Rightarrow> real option \<Rightarrow> real" where
  "dsr data repaymentOverride =
     repaymentUsed data repaymentOverride / annualIncomeDebtor data"

text \<open>The first value of \<^verbatim>\<open>baseScore\<close>: \<^verbatim>\<open>Math.min(100, Math.floor(dsr * 150))\<close>.\<close>

definition baseScoreDsr :: "formData \<Rightarrow> real option \<Rightarrow> int" where
  "baseScoreDsr data repaymentOverride = min 100 \<lfloor>dsr data repaymentOverride * 150\<rfloor>"

text \<open>The net operating income: the expenses are taken from the gross rent.\<close>

definition netIncome :: "formData \<Rightarrow> real" where
  "netIncome data =
     (let grossIncomeAfterVacancy =
            annualRentalIncomeGross data * (1.0 - vacancyRateAssumption data)
      in grossIncomeAfterVacancy - annualRentalIncomeGross data * annualExpensesRatio data)"

definition dcr :: "formData \<Rightarrow> real option \<Rightarrow> real" where
  "dcr data repaymentOverride =
     (if repaymentUsed data repaymentOverride > 0
      then netIncome data / repaymentUsed data repaymentOverride
      else 999.0)"

definition calculateRealEstateRisk :: "formData \<Rightarrow> real option \<Rightarrow> riskResult" where
  "calculateRealEstateRisk data repaymentOverride =
    (if annualIncomeDebtor data = 0.0 then
       \<lparr> score = 100,
         level = FatalZeroIncome,
         dcrComment = NoComment,
         dcrDetail = NoDetail,
         dcrValue = 0.0,
         annualNetIncome = None \<rparr>
     else
       (let
          baseScore = baseScoreDsr data repaymentOverride;
          d = dcr data repaymentOverride;
          comment = DcrComment d;
          adjusted =
            (if d < 1.0 then (baseScore + 40, DetailCannotCover)
             else if d < 1.2 then (baseScore + 15, DetailTight)
             else (baseScore - 10, DetailMargin));
          baseScore = fst adjusted + \<lfloor>otherDebtsRatio data * 30\<rfloor>;
          final = max 0 (min 100 baseScore);
          lvl =
            (if final \<ge> 70 then VeryHighRisk
             else if final \<ge> 50 then HighRisk
             else if final \<ge> 30 then MediumRisk
             else RelativelyLowRisk)
        in
          \<lparr> score = final,
            level = lvl,
            dcrComment = comment,
            dcrDetail = snd adjusted,
            dcrValue = d,
            annualNetIncome = Some (netIncome data) \<rparr>))"

text \<open>
  \<^verbatim>\<open>runWorstCaseSimulation\<close>. Its two last parameters have default values, taken when
  the argument is left out (\<open>None\<close>).
\<close>

record simulationResult =
  original :: riskResult
  vacancy :: riskResult
  rateHike :: riskResult
  newRepaymentAmount :: real

definition runWorstCaseSimulation ::
    "formData \<Rightarrow> real option \<Rightarrow> real option \<Rightarrow> simulationResult" where
  "runWorstCaseSimulation originalData rateIncreasePercentage worstVacancyRate =
    (let
       rate = (case rateIncreasePercentage of None \<Rightarrow> 0.02 | Some r \<Rightarrow> r);
       worst = (case worstVacancyRate of None \<Rightarrow> 0.20 | Some v \<Rightarrow> v);
       simDataVacancy = originalData\<lparr> vacancyRateAssumption := worst \<rparr>;
       resultVacancy = calculateRealEstateRisk simDataVacancy None;
       annualRepaymentIncrease = loanAmount originalData * rate;
       newAnnualRepayment = annualRepayment originalData + annualRepaymentIncrease;
       resultRate = calculateRealEstateRisk originalData (Some newAnnualRepayment)
     in
       \<lparr> original = calculateRealEstateRisk originalData None,
         vacancy = resultVacancy,
         rateHike = resultRate,
         newRepaymentAmount = newAnnualRepayment \<rparr>)"

text \<open>The default form values \<^verbatim>\<open>initialFormData\<close> of Variant B.\<close>

definition initialFormData :: formData where
  "initialFormData =
     \<lparr> annualIncomeDebtor = 5000000,
       annualRepayment = 1000000,
       loanAmount = 30000000,
       annualRentalIncomeGross = 2000000,
       annualExpensesRatio = 0.3,
       vacancyRateAssumption = 0.1,
       currentAnnualInterestRate = 0.03,
       otherDebtsRatio = 0.1 \<rparr>"


section \<open>The formulas of the specification\<close>

text \<open>
  Two formulas written after the specification's words, not after the code, to be
  compared with the code. \<open>specDcsr\<close> is the coverage ratio of Variant A as the
  specification gives it: the net operating income over the maximum of the repayment
  and 1.
\<close>

definition specDcsr :: "FinancialInput \<Rightarrow> real" where
  "specDcsr input =
     (annualRentIncome input * (1 - vacancyRate input) * (1 - expenseRate input))
       / max (FinancialInput.annualRepayment input) 1"

text \<open>
  \<open>specScore\<close> is the score of Variant B for a nonzero income as the specification
  gives it: the base score is the floor of 150 times the debt service ratio, with no cap
  of its own; then the adjustment by the coverage ratio, the other debts, and one clamp
  to the range from 0 to 100 at the end.
\<close>

definition specScore :: "formData \<Rightarrow> real option \<Rightarrow> int" where
  "specScore data repaymentOverride =
     (let
        baseScore = \<lfloor>dsr data repaymentOverride * 150\<rfloor>;
        d = dcr data repaymentOverride;
        baseScore = baseScore + (if d < 1.0 then 40 else if d < 1.2 then 15 else - 10);
        baseScore = baseScore + \<lfloor>otherDebtsRatio data * 30\<rfloor>
      in max 0 (min 100 baseScore))"


section \<open>Example inputs\<close>

text \<open>
  The second example of the specification: the default form values of Variant A with a
  vacancy rate of 0.25.
\<close>

definition example2Input :: FinancialInput where
  "example2Input = initialInput\<lparr> vacancyRate := 0.25 \<rparr>"

text \<open>Variant A's default form values with a rent of 1 and a repayment of one half.\<close>

definition smallRepaymentInput :: FinancialInput where
  "smallRepaymentInput =
     initialInput\<lparr> annualRentIncome := 1, FinancialInput.annualRepayment := 0.5 \<rparr>"

text \<open>
  Variant B's default form values with an income of 1,000,000, equal to the repayment.
\<close>

definition highDsrData :: formData where
  "highDsrData = initialFormData\<lparr> annualIncomeDebtor := 1000000 \<rparr>"


section \<open>Closed forms of the results\<close>

text \<open>
  Each field of the result of \<^verbatim>\<open>calculateRiskScore\<close> as a closed expression. The
  lower clamps at zero never change a sub-score: the penalties of a sub-score add up to
  less than its starting value.
\<close>

lemmas inputA_defs =
  initialInput_def debtToIncomeRatio_def totalDebtToIncomeRatio_def noi_def orElse_def

lemma currentDcsr_eq:
  "currentDcsr (calculateRiskScore input) =
     noi input / orElse (FinancialInput.annualRepayment input) 1"
  by (simp add: calculateRiskScore_def Let_def)

lemma creditScore_eq:
  "creditScore (calculateRiskScore input) =
     30 - (if debtToIncomeRatio input > 0.3 then 5 else 0)
        - (if totalDebtToIncomeRatio input > 5 then 10 else 0)
        - (if otherDebtRatio input > 0.2 then 5 else 0)"
  by (simp add: calculateRiskScore_def Let_def)

lemma propertyScore_eq:
  "propertyScore (calculateRiskScore input) =
     40 - (if currentDcsr (calculateRiskScore input) < 1.2 then 10 else 0)
        - (if currentDcsr (calculateRiskScore input) < 1.0 then 15 else 0)
        - (if expenseRate input > 0.4 then 5 else 0)
        - (if vacancyRate input > 0.15 then 5 else 0)"
proof -
  define d where "d = noi input / orElse (FinancialInput.annualRepayment input) 1"
  show ?thesis
    unfolding currentDcsr_eq d_def [symmetric]
    unfolding calculateRiskScore_def d_def [symmetric]
    by (simp add: Let_def)
qed

lemma interestRiskScore_eq:
  "interestRiskScore (calculateRiskScore input) =
     30 - (if interestRate input > 0.04 then 10 else 0)
        - (if interestRate input > 0.05 then 10 else 0)
        - (if totalDebtToIncomeRatio input > 8 then 5 else 0)"
  by (simp add: calculateRiskScore_def Let_def)

lemma finalScore_eq:
  "finalScore (calculateRiskScore input) =
     creditScore (calculateRiskScore input) + propertyScore (calculateRiskScore input)
     + interestRiskScore (calculateRiskScore input)"
  by (simp add: calculateRiskScore_def Let_def)

lemma riskLevel_eq:
  "riskLevel (calculateRiskScore input) =
     (if finalScore (calculateRiskScore input) < 50 then High
      else if finalScore (calculateRiskScore input) < 80 then Medium
      else Low)"
  by (simp add: calculateRiskScore_def Let_def)

lemma creditScore_range:
  "0 \<le> creditScore (calculateRiskScore input) \<and> creditScore (calculateRiskScore input) \<le> 30"
  unfolding creditScore_eq by simp

lemma propertyScore_range:
  "0 \<le> propertyScore (calculateRiskScore input) \<and> propertyScore (calculateRiskScore input) \<le> 40"
  unfolding propertyScore_eq by simp

lemma interestRiskScore_range:
  "0 \<le> interestRiskScore (calculateRiskScore input)
   \<and> interestRiskScore (calculateRiskScore input) \<le> 30"
  unfolding interestRiskScore_eq by simp

text \<open>The result of \<^verbatim>\<open>calculateRealEstateRisk\<close> on the branch of a nonzero income.\<close>

lemma score_range:
  "0 \<le> score (calculateRealEstateRisk data ro) \<and> score (calculateRealEstateRisk data ro) \<le> 100"
  by (simp add: calculateRealEstateRisk_def Let_def)

lemma dcrValue_eq:
  "annualIncomeDebtor data \<noteq> 0 \<Longrightarrow>
   dcrValue (calculateRealEstateRisk data ro) = dcr data ro"
  by (simp add: calculateRealEstateRisk_def Let_def)

lemma score_eq:
  "annualIncomeDebtor data \<noteq> 0 \<Longrightarrow>
   score (calculateRealEstateRisk data ro) =
     max 0 (min 100 (baseScoreDsr data ro
       + (if dcr data ro < 1.0 then 40 else if dcr data ro < 1.2 then 15 else - 10)
       + \<lfloor>otherDebtsRatio data * 30\<rfloor>))"
  by (simp add: calculateRealEstateRisk_def Let_def)

lemma dcrDetail_eq:
  "annualIncomeDebtor data \<noteq> 0 \<Longrightarrow>
   dcrDetail (calculateRealEstateRisk data ro) =
     (if dcr data ro < 1.0 then DetailCannotCover
      else if dcr data ro < 1.2 then DetailTight else DetailMargin)"
  by (simp add: calculateRealEstateRisk_def Let_def)

lemma original_eq:
  "original (runWorstCaseSimulation originalData r v) =
     calculateRealEstateRisk originalData None"
  by (simp add: runWorstCaseSimulation_def Let_def)


section \<open>The scorers at the example inputs\<close>

lemma initialInput_finalScore: "finalScore (calculateRiskScore initialInput) = 90"
proof -
  have d: "currentDcsr (calculateRiskScore initialInput) = 1.26"
    by (simp add: currentDcsr_eq inputA_defs)
  have c: "creditScore (calculateRiskScore initialInput) = 20"
    by (simp add: creditScore_eq inputA_defs)
  have p: "propertyScore (calculateRiskScore initialInput) = 40"
    unfolding propertyScore_eq d by (simp add: initialInput_def)
  have i: "interestRiskScore (calculateRiskScore initialInput) = 30"
    by (simp add: interestRiskScore_eq inputA_defs)
  show ?thesis by (simp add: finalScore_eq c p i)
qed

lemma initialFormData_fields:
  "annualIncomeDebtor initialFormData = 5000000"
  "formData.annualRepayment initialFormData = 1000000"
  "loanAmount initialFormData = 30000000"
  "otherDebtsRatio initialFormData = 0.1"
  by (simp_all add: initialFormData_def)

lemma initialFormData_original:
  "baseScoreDsr initialFormData None = 30" "dcr initialFormData None = 1.2"
  by (simp_all add: baseScoreDsr_def dsr_def dcr_def netIncome_def repaymentUsed_def
      initialFormData_def)

lemma initialFormData_vacancy:
  "baseScoreDsr (initialFormData\<lparr> vacancyRateAssumption := 0.20 \<rparr>) None = 30"
  "dcr (initialFormData\<lparr> vacancyRateAssumption := 0.20 \<rparr>) None = 1"
  by (simp_all add: baseScoreDsr_def dsr_def dcr_def netIncome_def repaymentUsed_def
      initialFormData_def)

lemma initialFormData_rateHike:
  "baseScoreDsr initialFormData (Some 1600000) = 48"
  "dcr initialFormData (Some 1600000) = 0.75"
  by (simp_all add: baseScoreDsr_def dsr_def dcr_def netIncome_def repaymentUsed_def
      initialFormData_def)

lemma highDsrData_dsr: "dsr highDsrData None = 1"
  by (simp add: dsr_def repaymentUsed_def highDsrData_def initialFormData_def)

lemma highDsrData_dcr: "dcr highDsrData None = 1.2"
  by (simp add: dcr_def netIncome_def repaymentUsed_def highDsrData_def initialFormData_def)

lemma highDsrData_fields:
  "annualIncomeDebtor highDsrData = 1000000" "otherDebtsRatio highDsrData = 0.1"
  by (simp_all add: highDsrData_def initialFormData_def)


section \<open>Score ranges\<close>

text \<open>
  C1. For every input, the final risk score returned by Variant A's
  \<^verbatim>\<open>calculateRiskScore\<close> and the score returned by Variant B's
  \<^verbatim>\<open>calculateRealEstateRisk\<close> lie between 0 and 100.
\<close>

theorem scores_in_range:
  "0 \<le> finalScore (calculateRiskScore input)
   \<and> finalScore (calculateRiskScore input) \<le> 100
   \<and> 0 \<le> score (calculateRealEstateRisk data repaymentOverride)
   \<and> score (calculateRealEstateRisk data repaymentOverride) \<le> 100"
  using creditScore_range [of input] propertyScore_range [of input]
    interestRiskScore_range [of input] score_range [of data repaymentOverride]
  by (simp add: finalScore_eq)

text \<open>The two scorers at their default form values: 90 and 23.\<close>

theorem scores_in_range_witness:
  "finalScore (calculateRiskScore initialInput) = 90
   \<and> score (calculateRealEstateRisk initialFormData None) = 23
   \<and> 0 \<le> finalScore (calculateRiskScore initialInput)
   \<and> finalScore (calculateRiskScore initialInput) \<le> 100
   \<and> 0 \<le> score (calculateRealEstateRisk initialFormData None)
   \<and> score (calculateRealEstateRisk initialFormData None) \<le> 100"
proof -
  have h: "annualIncomeDebtor initialFormData \<noteq> 0"
    by (simp add: initialFormData_fields)
  have b: "score (calculateRealEstateRisk initialFormData None) = 23"
    by (simp add: score_eq [OF h] initialFormData_original initialFormData_fields)
  show ?thesis
    using initialInput_finalScore b scores_in_range [of initialInput initialFormData None]
    by simp
qed

text \<open>
  C4. For every input, the three sub-scores of Variant A lie in their ranges (credit in
  0..30, property in 0..40, interest risk in 0..30), and the final score is exactly their
  sum.
\<close>

theorem subscores_bounded_and_sum:
  "0 \<le> creditScore (calculateRiskScore input)
   \<and> creditScore (calculateRiskScore input) \<le> 30
   \<and> 0 \<le> propertyScore (calculateRiskScore input)
   \<and> propertyScore (calculateRiskScore input) \<le> 40
   \<and> 0 \<le> interestRiskScore (calculateRiskScore input)
   \<and> interestRiskScore (calculateRiskScore input) \<le> 30
   \<and> finalScore (calculateRiskScore input) =
       creditScore (calculateRiskScore input) + propertyScore (calculateRiskScore input)
       + interestRiskScore (calculateRiskScore input)"
  using creditScore_range [of input] propertyScore_range [of input]
    interestRiskScore_range [of input] finalScore_eq [of input]
  by simp

text \<open>The sub-scores at the second example's input: 20, 25 and 30, with sum 75.\<close>

theorem subscores_bounded_and_sum_witness:
  "creditScore (calculateRiskScore example2Input) = 20
   \<and> interestRiskScore (calculateRiskScore example2Input) = 30
   \<and> 0 \<le> propertyScore (calculateRiskScore example2Input)
   \<and> propertyScore (calculateRiskScore example2Input) \<le> 40
   \<and> finalScore (calculateRiskScore example2Input) =
       50 + propertyScore (calculateRiskScore example2Input)"
proof -
  have c: "creditScore (calculateRiskScore example2Input) = 20"
    by (simp add: creditScore_eq example2Input_def inputA_defs)
  have i: "interestRiskScore (calculateRiskScore example2Input) = 30"
    by (simp add: interestRiskScore_eq example2Input_def inputA_defs)
  show ?thesis
    using subscores_bounded_and_sum [of example2Input] by (simp add: c i)
qed


section \<open>The zero-income guard of Variant B\<close>

text \<open>
  C3. Whenever \<^verbatim>\<open>annualIncomeDebtor\<close> is exactly zero, \<^verbatim>\<open>calculateRealEstateRisk\<close>
  returns the fixed fatal result: score 100, the fatal level, empty comment and detail,
  \<^verbatim>\<open>dcrValue\<close> 0 and no net income, whatever the other fields and the override are.
\<close>

theorem zero_income_fatal:
  assumes "annualIncomeDebtor data = 0"
  shows "calculateRealEstateRisk data repaymentOverride =
           \<lparr> score = 100, level = FatalZeroIncome, dcrComment = NoComment,
             dcrDetail = NoDetail, dcrValue = 0, annualNetIncome = None \<rparr>"
  using assms by (simp add: calculateRealEstateRisk_def)

text \<open>The default form values with the income set to zero, under a repayment override.\<close>

theorem zero_income_fatal_witness:
  "annualIncomeDebtor (initialFormData\<lparr> annualIncomeDebtor := 0 \<rparr>) = 0
   \<and> score (calculateRealEstateRisk (initialFormData\<lparr> annualIncomeDebtor := 0 \<rparr>)
        (Some 1600000)) = 100
   \<and> level (calculateRealEstateRisk (initialFormData\<lparr> annualIncomeDebtor := 0 \<rparr>)
        (Some 1600000)) = FatalZeroIncome
   \<and> dcrValue (calculateRealEstateRisk (initialFormData\<lparr> annualIncomeDebtor := 0 \<rparr>)
        (Some 1600000)) = 0"
proof -
  have h: "annualIncomeDebtor (initialFormData\<lparr> annualIncomeDebtor := 0 \<rparr>) = 0"
    by simp
  show ?thesis
    using h zero_income_fatal [OF h, of "Some 1600000"] by simp
qed


section \<open>A zero income in Variant A\<close>

text \<open>
  C10. When \<^verbatim>\<open>annualIncome\<close> is zero, \<^verbatim>\<open>calculateRiskScore\<close> has no fatal or
  sentinel result: both debt-to-income ratios are taken over the denominator 1, so that
  \<^verbatim>\<open>debtToIncomeRatio\<close> is the annual repayment and \<^verbatim>\<open>totalDebtToIncomeRatio\<close> is
  the total debt, and the result is scored as for any other input: the credit and
  interest-risk penalties compare the repayment and the debt themselves with the
  thresholds, the final score is the sum of the sub-scores, and the level follows the
  final score.
\<close>

theorem zero_income_variant_a:
  assumes "annualIncome input = 0"
  shows "debtToIncomeRatio input = FinancialInput.annualRepayment input
   \<and> totalDebtToIncomeRatio input = totalDebt input
   \<and> creditScore (calculateRiskScore input) =
       30 - (if FinancialInput.annualRepayment input > 0.3 then 5 else 0)
          - (if totalDebt input > 5 then 10 else 0)
          - (if otherDebtRatio input > 0.2 then 5 else 0)
   \<and> interestRiskScore (calculateRiskScore input) =
       30 - (if interestRate input > 0.04 then 10 else 0)
          - (if interestRate input > 0.05 then 10 else 0)
          - (if totalDebt input > 8 then 5 else 0)
   \<and> finalScore (calculateRiskScore input) =
       creditScore (calculateRiskScore input) + propertyScore (calculateRiskScore input)
       + interestRiskScore (calculateRiskScore input)
   \<and> riskLevel (calculateRiskScore input) =
       (if finalScore (calculateRiskScore input) < 50 then High
        else if finalScore (calculateRiskScore input) < 80 then Medium
        else Low)"
proof -
  have a: "debtToIncomeRatio input = FinancialInput.annualRepayment input"
    using assms by (simp add: debtToIncomeRatio_def orElse_def)
  have b: "totalDebtToIncomeRatio input = totalDebt input"
    using assms by (simp add: totalDebtToIncomeRatio_def orElse_def)
  show ?thesis
    using a b creditScore_eq [of input] interestRiskScore_eq [of input]
      finalScore_eq [of input] riskLevel_eq [of input]
    by simp
qed

text \<open>
  The default form values with the income set to zero: the ratios are the repayment and
  the debt, and the scores are those of the ordinary path.
\<close>

theorem zero_income_variant_a_witness:
  "annualIncome (initialInput\<lparr> annualIncome := 0 \<rparr>) = 0
   \<and> debtToIncomeRatio (initialInput\<lparr> annualIncome := 0 \<rparr>) = 1000000
   \<and> totalDebtToIncomeRatio (initialInput\<lparr> annualIncome := 0 \<rparr>) = 30000000
   \<and> creditScore (calculateRiskScore (initialInput\<lparr> annualIncome := 0 \<rparr>)) = 15
   \<and> interestRiskScore (calculateRiskScore (initialInput\<lparr> annualIncome := 0 \<rparr>)) = 25"
proof -
  have h: "annualIncome (initialInput\<lparr> annualIncome := 0 \<rparr>) = 0"
    by simp
  show ?thesis
    using zero_income_variant_a [OF h] by (simp add: initialInput_def)
qed



section \<open>The coverage ratio of Variant A\<close>

text \<open>
  C7, as stated: the coverage ratio is the net operating income over the maximum of the
  repayment and 1. With a rent of 1 and a repayment of one half the code divides by one
  half and obtains 1.26, where the maximum would give 0.63.
\<close>

theorem dcsr_max_counterexample:
  "currentDcsr (calculateRiskScore smallRepaymentInput) = 1.26
   \<and> specDcsr smallRepaymentInput = 0.63
   \<and> currentDcsr (calculateRiskScore smallRepaymentInput) \<noteq> specDcsr smallRepaymentInput"
  by (simp add: currentDcsr_eq specDcsr_def smallRepaymentInput_def inputA_defs)

text \<open>
  C7, amended. For every input, the net operating income is the rent times one minus the
  vacancy rate times one minus the expense rate, and the coverage ratio is the net
  operating income over the repayment when the repayment is not zero and over 1 when it
  is zero; the property score is computed from this ratio. The denominator is the
  maximum of the repayment and 1 whenever the repayment is zero or at least 1.
\<close>

theorem property_noi_dcsr:
  "noi input = annualRentIncome input * (1 - vacancyRate input) * (1 - expenseRate input)
   \<and> currentDcsr (calculateRiskScore input) =
       noi input / (if FinancialInput.annualRepayment input = 0 then 1
                    else FinancialInput.annualRepayment input)
   \<and> propertyScore (calculateRiskScore input) =
       40 - (if currentDcsr (calculateRiskScore input) < 1.2 then 10 else 0)
          - (if currentDcsr (calculateRiskScore input) < 1.0 then 15 else 0)
          - (if expenseRate input > 0.4 then 5 else 0)
          - (if vacancyRate input > 0.15 then 5 else 0)
   \<and> (FinancialInput.annualRepayment input = 0 \<or> 1 \<le> FinancialInput.annualRepayment input
        \<longrightarrow> currentDcsr (calculateRiskScore input) = specDcsr input)"
proof -
  have a: "noi input =
      annualRentIncome input * (1 - vacancyRate input) * (1 - expenseRate input)"
    by (simp add: noi_def)
  have b: "currentDcsr (calculateRiskScore input) =
      noi input / (if FinancialInput.annualRepayment input = 0 then 1
                   else FinancialInput.annualRepayment input)"
    by (simp add: currentDcsr_eq orElse_def)
  have c: "FinancialInput.annualRepayment input = 0 \<or> 1 \<le> FinancialInput.annualRepayment input
      \<longrightarrow> currentDcsr (calculateRiskScore input) = specDcsr input"
    by (auto simp add: currentDcsr_eq orElse_def specDcsr_def noi_def max_def)
  show ?thesis using a b c propertyScore_eq [of input] by blast
qed

text \<open>The default form values, whose repayment is above 1.\<close>

theorem property_noi_dcsr_witness:
  "noi initialInput = 1260000
   \<and> currentDcsr (calculateRiskScore initialInput) = 1.26
   \<and> propertyScore (calculateRiskScore initialInput) = 40
   \<and> 1 \<le> FinancialInput.annualRepayment initialInput
   \<and> currentDcsr (calculateRiskScore initialInput) = specDcsr initialInput"
proof -
  have n: "noi initialInput = 1260000"
    by (simp add: noi_def initialInput_def)
  have r: "FinancialInput.annualRepayment initialInput = 1000000"
    by (simp add: initialInput_def)
  have e: "expenseRate initialInput = 0.3" "vacancyRate initialInput = 0.1"
    by (simp_all add: initialInput_def)
  have d: "currentDcsr (calculateRiskScore initialInput) = 1.26"
    using property_noi_dcsr [of initialInput] by (simp add: n r)
  have p: "propertyScore (calculateRiskScore initialInput) = 40"
    using property_noi_dcsr [of initialInput] by (simp add: d e)
  have s: "currentDcsr (calculateRiskScore initialInput) = specDcsr initialInput"
    using property_noi_dcsr [of initialInput] by (simp add: r)
  show ?thesis using n d p s by (simp add: r)
qed



section \<open>The second example of the specification\<close>

text \<open>
  C5, as stated: on the first example's input with the vacancy rate changed to 0.25,
  Variant A yields a property score of 35, a final score of 95 and the level Low. The
  code yields none of the three.
\<close>

theorem example2_counterexample:
  "\<not> (propertyScore (calculateRiskScore example2Input) = 35
      \<and> finalScore (calculateRiskScore example2Input) = 95
      \<and> riskLevel (calculateRiskScore example2Input) = Low)"
  by (simp add: propertyScore_eq currentDcsr_eq example2Input_def inputA_defs)

text \<open>
  C5, amended. On that input, whatever the simulated interest rate is, the coverage
  ratio is 1.05, so the penalty of 10 for a ratio below 1.2 applies besides the vacancy
  penalty of 5, and the total debt is six times the income, so the credit score loses
  10: credit 20, property 25, interest risk 30, final score 75, level Medium.
\<close>

theorem example2_scores:
  "currentDcsr (calculateRiskScore (example2Input\<lparr> simulatedInterestRate := s \<rparr>)) = 1.05
   \<and> creditScore (calculateRiskScore (example2Input\<lparr> simulatedInterestRate := s \<rparr>)) = 20
   \<and> propertyScore (calculateRiskScore (example2Input\<lparr> simulatedInterestRate := s \<rparr>)) = 25
   \<and> interestRiskScore (calculateRiskScore (example2Input\<lparr> simulatedInterestRate := s \<rparr>)) = 30
   \<and> finalScore (calculateRiskScore (example2Input\<lparr> simulatedInterestRate := s \<rparr>)) = 75
   \<and> riskLevel (calculateRiskScore (example2Input\<lparr> simulatedInterestRate := s \<rparr>)) = Medium"
proof -
  let ?r = "calculateRiskScore (example2Input\<lparr> simulatedInterestRate := s \<rparr>)"
  have d: "currentDcsr ?r = 1.05"
    by (simp add: currentDcsr_eq example2Input_def inputA_defs)
  have c: "creditScore ?r = 20"
    by (simp add: creditScore_eq example2Input_def inputA_defs)
  have p: "propertyScore ?r = 25"
    unfolding propertyScore_eq d by (simp add: example2Input_def initialInput_def)
  have i: "interestRiskScore ?r = 30"
    by (simp add: interestRiskScore_eq example2Input_def inputA_defs)
  have f: "finalScore ?r = 75"
    by (simp add: finalScore_eq c p i)
  have l: "riskLevel ?r = Medium"
    using f by (simp add: calculateRiskScore_def Let_def)
  show ?thesis using d c p i f l by simp
qed



section \<open>The coverage ratio of Variant B\<close>

text \<open>
  C9. In Variant B, when the income is not zero, the repayment in use is 0 and the net
  income is positive, the returned \<^verbatim>\<open>dcrValue\<close> is the sentinel 999 and the result
  is the ordinary one (no division takes place, and the level is not the fatal one).
\<close>

theorem zero_repayment_sentinel:
  assumes "annualIncomeDebtor data \<noteq> 0"
    and "repaymentUsed data repaymentOverride = 0"
    and "netIncome data > 0"
  shows "dcrValue (calculateRealEstateRisk data repaymentOverride) = 999
   \<and> dcrComment (calculateRealEstateRisk data repaymentOverride) = DcrComment 999
   \<and> dcrDetail (calculateRealEstateRisk data repaymentOverride) = DetailMargin
   \<and> annualNetIncome (calculateRealEstateRisk data repaymentOverride) = Some (netIncome data)
   \<and> level (calculateRealEstateRisk data repaymentOverride) \<noteq> FatalZeroIncome
   \<and> score (calculateRealEstateRisk data repaymentOverride) =
       max 0 (min 100 (\<lfloor>otherDebtsRatio data * 30\<rfloor> - 10))"
proof -
  have d: "dcr data repaymentOverride = 999"
    using assms(2) by (simp add: dcr_def)
  have b: "baseScoreDsr data repaymentOverride = 0"
    using assms(2) by (simp add: baseScoreDsr_def dsr_def)
  show ?thesis
    using assms(1) by (simp add: calculateRealEstateRisk_def Let_def d b)
qed

text \<open>The default form values with the repayment set to zero.\<close>

theorem zero_repayment_sentinel_witness:
  "annualIncomeDebtor (initialFormData\<lparr> formData.annualRepayment := 0 \<rparr>) \<noteq> 0
   \<and> repaymentUsed (initialFormData\<lparr> formData.annualRepayment := 0 \<rparr>) None = 0
   \<and> netIncome (initialFormData\<lparr> formData.annualRepayment := 0 \<rparr>) > 0
   \<and> dcrValue (calculateRealEstateRisk
         (initialFormData\<lparr> formData.annualRepayment := 0 \<rparr>) None) = 999
   \<and> score (calculateRealEstateRisk
         (initialFormData\<lparr> formData.annualRepayment := 0 \<rparr>) None) = 0"
proof -
  let ?d = "initialFormData\<lparr> formData.annualRepayment := 0 \<rparr>"
  have h1: "annualIncomeDebtor ?d \<noteq> 0"
    by (simp add: initialFormData_def)
  have h2: "repaymentUsed ?d None = 0"
    by (simp add: repaymentUsed_def)
  have h3: "netIncome ?d > 0"
    by (simp add: netIncome_def initialFormData_def)
  have o: "otherDebtsRatio ?d = 0.1"
    by (simp add: initialFormData_def)
  show ?thesis
    using h1 h2 h3 zero_repayment_sentinel [OF h1 h2 h3] by (simp add: o)
qed

text \<open>
  C8. In Variant B, for a nonzero income, exactly one of the three adjustments by the
  coverage ratio applies: 40 is added when the ratio is below 1.0, otherwise 15 is added
  when it is below 1.2, otherwise 10 is subtracted.
\<close>

theorem dcr_adjustment_exclusive:
  assumes "annualIncomeDebtor data \<noteq> 0"
  shows "dcrValue (calculateRealEstateRisk data repaymentOverride) = dcr data repaymentOverride
   \<and> (dcr data repaymentOverride < 1.0 \<longrightarrow>
        score (calculateRealEstateRisk data repaymentOverride) =
          max 0 (min 100 (baseScoreDsr data repaymentOverride + 40
                          + \<lfloor>otherDebtsRatio data * 30\<rfloor>))
        \<and> dcrDetail (calculateRealEstateRisk data repaymentOverride) = DetailCannotCover)
   \<and> (1.0 \<le> dcr data repaymentOverride \<and> dcr data repaymentOverride < 1.2 \<longrightarrow>
        score (calculateRealEstateRisk data repaymentOverride) =
          max 0 (min 100 (baseScoreDsr data repaymentOverride + 15
                          + \<lfloor>otherDebtsRatio data * 30\<rfloor>))
        \<and> dcrDetail (calculateRealEstateRisk data repaymentOverride) = DetailTight)
   \<and> (1.2 \<le> dcr data repaymentOverride \<longrightarrow>
        score (calculateRealEstateRisk data repaymentOverride) =
          max 0 (min 100 (baseScoreDsr data repaymentOverride - 10
                          + \<lfloor>otherDebtsRatio data * 30\<rfloor>))
        \<and> dcrDetail (calculateRealEstateRisk data repaymentOverride) = DetailMargin)"
proof -
  define d where "d = dcr data repaymentOverride"
  have v: "dcrValue (calculateRealEstateRisk data repaymentOverride) = d"
    unfolding d_def using assms by (rule dcrValue_eq)
  have s: "score (calculateRealEstateRisk data repaymentOverride) =
     max 0 (min 100 (baseScoreDsr data repaymentOverride
       + (if d < 1.0 then 40 else if d < 1.2 then 15 else - 10)
       + \<lfloor>otherDebtsRatio data * 30\<rfloor>))"
    unfolding d_def using assms by (rule score_eq)
  have t: "dcrDetail (calculateRealEstateRisk data repaymentOverride) =
     (if d < 1.0 then DetailCannotCover
      else if d < 1.2 then DetailTight else DetailMargin)"
    unfolding d_def using assms by (rule dcrDetail_eq)
  show ?thesis
    unfolding d_def [symmetric] v s t by simp
qed

text \<open>
  One input for each branch: the default form values under the repayments 1,600,000
  (ratio 0.75), 1,050,000 (ratio 8/7) and 1,000,000 (ratio 1.2).
\<close>

theorem dcr_adjustment_exclusive_witness:
  "annualIncomeDebtor initialFormData \<noteq> 0
   \<and> dcr initialFormData (Some 1600000) = 0.75
   \<and> score (calculateRealEstateRisk initialFormData (Some 1600000)) = 91
   \<and> dcr initialFormData (Some 1050000) = 8 / 7
   \<and> score (calculateRealEstateRisk initialFormData (Some 1050000)) = 49
   \<and> dcr initialFormData None = 1.2
   \<and> score (calculateRealEstateRisk initialFormData None) = 23"
proof -
  have h: "annualIncomeDebtor initialFormData \<noteq> 0"
    by (simp add: initialFormData_def)
  have o: "otherDebtsRatio initialFormData = 0.1"
    by (simp add: initialFormData_def)
  have d1: "dcr initialFormData (Some 1600000) = 0.75"
    by (simp add: dcr_def netIncome_def repaymentUsed_def initialFormData_def)
  have b1: "baseScoreDsr initialFormData (Some 1600000) = 48"
    by (simp add: baseScoreDsr_def dsr_def repaymentUsed_def initialFormData_def)
  have d2: "dcr initialFormData (Some 1050000) = 8 / 7"
    by (simp add: dcr_def netIncome_def repaymentUsed_def initialFormData_def)
  have b2: "baseScoreDsr initialFormData (Some 1050000) = 31"
    by (simp add: baseScoreDsr_def dsr_def repaymentUsed_def initialFormData_def)
  have d3: "dcr initialFormData None = 1.2"
    by (simp add: dcr_def netIncome_def repaymentUsed_def initialFormData_def)
  have b3: "baseScoreDsr initialFormData None = 30"
    by (simp add: baseScoreDsr_def dsr_def repaymentUsed_def initialFormData_def)
  have s1: "score (calculateRealEstateRisk initialFormData (Some 1600000)) = 91"
    using dcr_adjustment_exclusive [OF h, of "Some 1600000"] by (simp add: d1 b1 o)
  have s2: "score (calculateRealEstateRisk initialFormData (Some 1050000)) = 49"
    using dcr_adjustment_exclusive [OF h, of "Some 1050000"] by (simp add: d2 b2 o)
  have s3: "score (calculateRealEstateRisk initialFormData None) = 23"
    using dcr_adjustment_exclusive [OF h, of None] by (simp add: d3 b3 o)
  show ?thesis using h d1 d2 d3 s1 s2 s3 by simp
qed



section \<open>The base score of Variant B\<close>

text \<open>
  C6, as stated: for a nonzero income the base score is the floor of 150 times the debt
  service ratio, and the clamp is applied only after the adjustments. With an income
  equal to the repayment the floor is 150 while the base score of the code is 100, and
  the score is 93 where the stated formula gives 100.
\<close>

theorem base_score_cap_counterexample:
  "annualIncomeDebtor highDsrData \<noteq> 0
   \<and> \<lfloor>dsr highDsrData None * 150\<rfloor> = 150
   \<and> baseScoreDsr highDsrData None = 100
   \<and> baseScoreDsr highDsrData None \<noteq> \<lfloor>dsr highDsrData None * 150\<rfloor>
   \<and> score (calculateRealEstateRisk highDsrData None) = 93
   \<and> specScore highDsrData None = 100"
proof -
  have h: "annualIncomeDebtor highDsrData \<noteq> 0"
    by (simp add: highDsrData_fields)
  have b: "baseScoreDsr highDsrData None = 100"
    by (simp add: baseScoreDsr_def highDsrData_dsr)
  have s: "score (calculateRealEstateRisk highDsrData None) = 93"
    by (simp add: score_eq [OF h] b highDsrData_dcr highDsrData_fields)
  have t: "specScore highDsrData None = 100"
    by (simp add: specScore_def Let_def highDsrData_dsr highDsrData_dcr highDsrData_fields)
  show ?thesis using h b s t by (simp add: highDsrData_dsr)
qed

text \<open>
  C6, amended. For a nonzero income the base score is the minimum of 100 and the floor
  of 150 times the debt service ratio: the upper bound 100 is applied at the base-score
  step already, and the clamp to the range from 0 to 100 is applied again after the
  adjustments by the coverage ratio and the other debts. So a coverage ratio of at least
  1.2 keeps the score at or below 90 plus the other-debts term, however high the debt
  service ratio is; the stated formula gives the same score whenever the floor does not
  exceed 100.
\<close>

theorem base_score_capped_early:
  assumes "annualIncomeDebtor data \<noteq> 0"
  shows "baseScoreDsr data repaymentOverride =
       min 100 \<lfloor>repaymentUsed data repaymentOverride / annualIncomeDebtor data * 150\<rfloor>
   \<and> score (calculateRealEstateRisk data repaymentOverride) =
       max 0 (min 100 (baseScoreDsr data repaymentOverride
         + (if dcr data repaymentOverride < 1.0 then 40
            else if dcr data repaymentOverride < 1.2 then 15 else - 10)
         + \<lfloor>otherDebtsRatio data * 30\<rfloor>))
   \<and> (1.2 \<le> dcr data repaymentOverride \<longrightarrow>
        score (calculateRealEstateRisk data repaymentOverride)
          \<le> max 0 (90 + \<lfloor>otherDebtsRatio data * 30\<rfloor>))
   \<and> (\<lfloor>dsr data repaymentOverride * 150\<rfloor> \<le> 100 \<longrightarrow>
        score (calculateRealEstateRisk data repaymentOverride) =
          specScore data repaymentOverride)"
proof -
  define b where "b = baseScoreDsr data repaymentOverride"
  define d where "d = dcr data repaymentOverride"
  define k where "k = \<lfloor>otherDebtsRatio data * 30\<rfloor>"
  have b100: "b \<le> 100"
    by (simp add: b_def baseScoreDsr_def)
  have a: "baseScoreDsr data repaymentOverride =
      min 100 \<lfloor>repaymentUsed data repaymentOverride / annualIncomeDebtor data * 150\<rfloor>"
    by (simp add: baseScoreDsr_def dsr_def)
  have s: "score (calculateRealEstateRisk data repaymentOverride) =
      max 0 (min 100 (b + (if d < 1.0 then 40 else if d < 1.2 then 15 else - 10) + k))"
    unfolding b_def d_def k_def using assms by (rule score_eq)
  have c: "1.2 \<le> d \<longrightarrow>
      score (calculateRealEstateRisk data repaymentOverride) \<le> max 0 (90 + k)"
    unfolding s using b100 by auto
  have e: "\<lfloor>dsr data repaymentOverride * 150\<rfloor> \<le> 100 \<longrightarrow>
      score (calculateRealEstateRisk data repaymentOverride) =
        specScore data repaymentOverride"
    unfolding s by (simp add: specScore_def Let_def b_def d_def k_def baseScoreDsr_def)
  show ?thesis
    using a s c e unfolding b_def d_def k_def by blast
qed

text \<open>The input of the counterexample: the base score is capped at 100, the score is 93.\<close>

theorem base_score_capped_early_witness:
  "annualIncomeDebtor highDsrData \<noteq> 0
   \<and> 1.2 \<le> dcr highDsrData None
   \<and> baseScoreDsr highDsrData None = 100
   \<and> score (calculateRealEstateRisk highDsrData None) = 93
   \<and> score (calculateRealEstateRisk highDsrData None)
        \<le> max 0 (90 + \<lfloor>otherDebtsRatio highDsrData * 30\<rfloor>)"
proof -
  have h: "annualIncomeDebtor highDsrData \<noteq> 0"
    by (simp add: highDsrData_fields)
  have r: "repaymentUsed highDsrData None / annualIncomeDebtor highDsrData = 1"
    by (simp add: repaymentUsed_def highDsrData_def initialFormData_def)
  note t = base_score_capped_early [OF h, of None]
  have b: "baseScoreDsr highDsrData None = 100"
    using t by (simp add: r)
  have s: "score (calculateRealEstateRisk highDsrData None) = 93"
    using conjunct1 [OF conjunct2 [OF t]]
    by (simp add: b highDsrData_dcr highDsrData_fields)
  show ?thesis using h b s by (simp add: highDsrData_dcr highDsrData_fields)
qed



section \<open>The worst-case simulation\<close>

text \<open>
  C2, as stated: \<^verbatim>\<open>runWorstCaseSimulation\<close> runs Variant A's scorer. The default form
  values of the two variants agree field by field, Variant A's scorer gives 90 on them,
  and the result \<^verbatim>\<open>original\<close> of the simulation has the score 23.
\<close>

theorem simulation_variant_counterexample:
  "annualIncome initialInput = annualIncomeDebtor initialFormData
   \<and> FinancialInput.annualRepayment initialInput = formData.annualRepayment initialFormData
   \<and> totalDebt initialInput = loanAmount initialFormData
   \<and> annualRentIncome initialInput = annualRentalIncomeGross initialFormData
   \<and> expenseRate initialInput = annualExpensesRatio initialFormData
   \<and> vacancyRate initialInput = vacancyRateAssumption initialFormData
   \<and> interestRate initialInput = currentAnnualInterestRate initialFormData
   \<and> otherDebtRatio initialInput = otherDebtsRatio initialFormData
   \<and> finalScore (calculateRiskScore initialInput) = 90
   \<and> score (original (runWorstCaseSimulation initialFormData None None)) = 23
   \<and> score (original (runWorstCaseSimulation initialFormData None None))
        \<noteq> finalScore (calculateRiskScore initialInput)"
proof -
  have h: "annualIncomeDebtor initialFormData \<noteq> 0"
    by (simp add: initialFormData_fields)
  have b: "score (original (runWorstCaseSimulation initialFormData None None)) = 23"
    by (simp add: original_eq score_eq [OF h] initialFormData_original
        initialFormData_fields)
  show ?thesis
    unfolding initialInput_finalScore b by (simp add: initialInput_def initialFormData_def)
qed

text \<open>
  C2, amended. \<^verbatim>\<open>runWorstCaseSimulation\<close> runs Variant B's scorer
  \<^verbatim>\<open>calculateRealEstateRisk\<close> three times: on the unmodified input (result
  \<^verbatim>\<open>original\<close>), on the input with the vacancy rate set to the worst-case rate
  (default 0.20, result \<^verbatim>\<open>vacancy\<close>), and on the input with the repayment overridden
  by the annual repayment plus the loan amount times the rate increase (default 0.02,
  result \<^verbatim>\<open>rateHike\<close>); it returns the three results and that stressed repayment.
\<close>

theorem simulation_runs_variant_b:
  "original (runWorstCaseSimulation originalData rateIncreasePercentage worstVacancyRate) =
     calculateRealEstateRisk originalData None
   \<and> vacancy (runWorstCaseSimulation originalData rateIncreasePercentage worstVacancyRate) =
     calculateRealEstateRisk
       (originalData\<lparr> vacancyRateAssumption :=
          (case worstVacancyRate of None \<Rightarrow> 0.20 | Some v \<Rightarrow> v) \<rparr>) None
   \<and> rateHike (runWorstCaseSimulation originalData rateIncreasePercentage worstVacancyRate) =
     calculateRealEstateRisk originalData
       (Some (formData.annualRepayment originalData + loanAmount originalData *
          (case rateIncreasePercentage of None \<Rightarrow> 0.02 | Some r \<Rightarrow> r)))
   \<and> newRepaymentAmount
       (runWorstCaseSimulation originalData rateIncreasePercentage worstVacancyRate) =
     formData.annualRepayment originalData + loanAmount originalData *
       (case rateIncreasePercentage of None \<Rightarrow> 0.02 | Some r \<Rightarrow> r)"
  by (simp add: runWorstCaseSimulation_def Let_def)

text \<open>The simulation on the default form values with both defaults.\<close>

theorem simulation_runs_variant_b_witness:
  "score (original (runWorstCaseSimulation initialFormData None None)) = 23
   \<and> score (vacancy (runWorstCaseSimulation initialFormData None None)) = 48
   \<and> dcrValue (vacancy (runWorstCaseSimulation initialFormData None None)) = 1
   \<and> score (rateHike (runWorstCaseSimulation initialFormData None None)) = 91
   \<and> dcrValue (rateHike (runWorstCaseSimulation initialFormData None None)) = 0.75
   \<and> newRepaymentAmount (runWorstCaseSimulation initialFormData None None) = 1600000"
proof -
  let ?sim = "runWorstCaseSimulation initialFormData None None"
  let ?vac = "initialFormData\<lparr> vacancyRateAssumption := 0.20 \<rparr>"
  note t = simulation_runs_variant_b [of initialFormData None None]
  have h: "annualIncomeDebtor initialFormData \<noteq> 0"
    by (simp add: initialFormData_fields)
  have hv: "annualIncomeDebtor ?vac \<noteq> 0"
    by (simp add: initialFormData_fields)
  have ov: "otherDebtsRatio ?vac = 0.1"
    by (simp add: initialFormData_fields)
  have o: "original ?sim = calculateRealEstateRisk initialFormData None"
    using t by simp
  have v: "vacancy ?sim = calculateRealEstateRisk ?vac None"
    using t by simp
  have r: "rateHike ?sim = calculateRealEstateRisk initialFormData (Some 1600000)"
    using t by (simp add: initialFormData_fields)
  have n: "newRepaymentAmount ?sim = 1600000"
    using t by (simp add: initialFormData_fields)
  have a: "score (original ?sim) = 23"
    unfolding o
    by (simp add: score_eq [OF h] initialFormData_original initialFormData_fields)
  have b: "score (vacancy ?sim) = 48"
    unfolding v score_eq [OF hv] initialFormData_vacancy ov by simp
  have b': "dcrValue (vacancy ?sim) = 1"
    unfolding v dcrValue_eq [OF hv] initialFormData_vacancy by simp
  have c: "score (rateHike ?sim) = 91"
    unfolding r
    by (simp add: score_eq [OF h] initialFormData_rateHike initialFormData_fields)
  have c': "dcrValue (rateHike ?sim) = 0.75"
    unfolding r by (simp add: dcrValue_eq [OF h] initialFormData_rateHike)
  show ?thesis using n a b b' c c' by simp
qed

end
